theory Spec2Isabelle
  imports Complex_Main "HOL-Library.Word"
begin

section \<open>Data model (types.ts)\<close>

text \<open>
  A JavaScript string is a sequence of UTF-16 code units. User text and the Russian
  messages of the interface are kept as code-unit lists; CSS class names and property
  names, which are ASCII literals of the code, are kept as HOL strings.
  A JavaScript number that arrives in a JSON response is a finite double; the field
  \<open>confidence\<close> holds its value as a real. Comparing it with the literals 0.8 and 0.5
  is the comparison of reals (no double lies between a literal and the double nearest
  to it). Arithmetic on it is double arithmetic: the exact result, rounded.
\<close>

type_synonym jsstring = "16 word list"

datatype TranslationDirection = TabRus | RusTab

text \<open>The field \<open>translations\<close> is named \<open>word_translations\<close>: the source's name is a keyword of Isabelle.\<close>

record WordTranslation =
  word :: jsstring
  word_translations :: "jsstring list"
  part_of_speech :: "jsstring option"
  confidence :: real
  is_unknown :: bool

record TranslateResponse =
  original_text :: jsstring
  translated_text :: jsstring
  words :: "WordTranslation list"
  direction_of :: TranslationDirection
  llm_used :: bool

text \<open>Truthiness of a value of type \<open>string | null | undefined\<close>: the empty string is falsy.\<close>

definition truthy :: "jsstring option \<Rightarrow> bool" where
  "truthy v = (case v of None \<Rightarrow> False | Some s \<Rightarrow> s \<noteq> [])"

section \<open>String.prototype.trim\<close>

text \<open>The code units that ECMAScript counts as WhiteSpace or LineTerminator.\<close>

definition is_js_space :: "16 word \<Rightarrow> bool" where
  "is_js_space c =
     (c = 0x0009 \<or> c = 0x000A \<or> c = 0x000B \<or> c = 0x000C \<or> c = 0x000D \<or> c = 0x0020
      \<or> c = 0x00A0 \<or> c = 0x1680 \<or> (0x2000 \<le> c \<and> c \<le> 0x200A) \<or> c = 0x2028
      \<or> c = 0x2029 \<or> c = 0x202F \<or> c = 0x205F \<or> c = 0x3000 \<or> c = 0xFEFF)"

definition trim :: "jsstring \<Rightarrow> jsstring" where
  "trim s = rev (dropWhile is_js_space (rev (dropWhile is_js_space s)))"

section \<open>Numbers\<close>

text \<open>
  The result of an operation on doubles: a finite double, given by its value, or an
  infinity. The sign of a zero is not kept (both zeros print as \<open>0\<close>).
\<close>

datatype js_number = Finite real | PosInfinity | NegInfinity

text \<open>The nearest integer, a tie going to the even one.\<close>

definition round_half_even :: "real \<Rightarrow> int" where
  "round_half_even b =
     (let f = \<lfloor>b\<rfloor>; r = b - of_int f
      in if r < 1 / 2 then f
         else if 1 / 2 < r then f + 1
         else if even f then f else f + 1)"

text \<open>
  Scaling a magnitude into the range of a 53-bit significand, \<open>[2^52, 2^53)\<close>, by
  powers of two. Scaling up stops at the least exponent of a double, -1074 (the
  subnormal range); scaling down goes as far as the exponent 972, which is past the
  greatest one.
\<close>

fun normalise_up :: "nat \<Rightarrow> real \<Rightarrow> int \<Rightarrow> real \<times> int" where
  "normalise_up 0 a e = (a, e)"
| "normalise_up (Suc n) a e =
     (if 2 ^ 52 \<le> a then (a, e) else normalise_up n (2 * a) (e - 1))"

fun normalise_down :: "nat \<Rightarrow> real \<Rightarrow> int \<Rightarrow> real \<times> int" where
  "normalise_down 0 a e = (a, e)"
| "normalise_down (Suc n) a e =
     (if a < 2 ^ 53 then (a, e) else normalise_down n (a / 2) (e + 1))"

text \<open>
  Rounding a real to binary64, to nearest with ties to the even significand: a result
  of magnitude \<open>2^1024\<close> or more is an infinity.
\<close>

definition round_to_double :: "real \<Rightarrow> js_number" where
  "round_to_double x =
     (let a = \<bar>x\<bar>;
          (b, e) = (if a < 2 ^ 53 then normalise_up 1074 a 0 else normalise_down 972 a 0);
          v = of_int (round_half_even b) * 2 powi e
      in if 2 ^ 1024 \<le> v then (if x < 0 then NegInfinity else PosInfinity)
         else Finite (sgn x * v))"

text \<open>The operator \<open>*\<close> on two finite doubles: their exact product, rounded.\<close>

definition js_times :: "real \<Rightarrow> real \<Rightarrow> js_number" where
  "js_times x y = round_to_double (x * y)"

text \<open>
  \<open>Math.round\<close>: the nearest integer, a tie going up; an infinity is returned as it
  is.
\<close>

fun Math_round :: "js_number \<Rightarrow> js_number" where
  "Math_round (Finite p) = Finite (of_int \<lfloor>p + 1 / 2\<rfloor>)"
| "Math_round PosInfinity = PosInfinity"
| "Math_round NegInfinity = NegInfinity"

section \<open>WordCard.vue\<close>

record confidence_bar =
  bar_class :: "string list"
  bar_width_percent :: js_number
  bar_label_percent :: js_number

text \<open>
  The class array and the style of the inner bar, and the rounded percentage beside it.
\<close>

definition confidence_color :: "WordTranslation \<Rightarrow> string" where
  "confidence_color w =
     (if confidence w \<ge> 0.8 then ''bg-green-500''
      else if confidence w \<ge> 0.5 then ''bg-yellow-500'' else ''bg-red-500'')"

definition confidence_bar_of :: "WordTranslation \<Rightarrow> confidence_bar" where
  "confidence_bar_of w =
     \<lparr> bar_class = [''h-full rounded-full transition-all'', confidence_color w],
       bar_width_percent = js_times (confidence w) 100,
       bar_label_percent = Math_round (js_times (confidence w) 100) \<rparr>"

record word_card =
  card_title :: jsstring
  card_part_of_speech :: "jsstring option"
  card_translations :: "jsstring list"
  card_bar :: confidence_bar

definition WordCard :: "WordTranslation \<Rightarrow> word_card" where
  "WordCard w =
     \<lparr> card_title = word w,
       card_part_of_speech = (if truthy (part_of_speech w) then part_of_speech w else None),
       card_translations = word_translations w,
       card_bar = confidence_bar_of w \<rparr>"

section \<open>TranslatorResult.vue\<close>

subsection \<open>Script\<close>

definition selectWord :: "WordTranslation \<Rightarrow> WordTranslation option \<Rightarrow> WordTranslation option" where
  "selectWord w selectedWord = (if \<not> is_unknown w then Some w else selectedWord)"

definition closeWordCard :: "WordTranslation option \<Rightarrow> WordTranslation option" where
  "closeWordCard selectedWord = None"

definition getWordClass :: "WordTranslation \<Rightarrow> string" where
  "getWordClass w =
     (if is_unknown w then ''text-red-600 bg-red-50 cursor-help''
      else if confidence w < 0.8 then
        ''text-yellow-700 bg-yellow-50 cursor-pointer hover:bg-yellow-100''
      else ''cursor-pointer hover:bg-primary-50'')"

text \<open>The invariant of the component's local state \<open>selectedWord\<close>.\<close>

definition selected_known :: "WordTranslation option \<Rightarrow> bool" where
  "selected_known selectedWord =
     (case selectedWord of None \<Rightarrow> True | Some w \<Rightarrow> \<not> is_unknown w)"

subsection \<open>Template\<close>

definition not_found_title :: jsstring where
  "not_found_title =
     [0x0421, 0x043B, 0x043E, 0x0432, 0x043E, 0x0020, 0x043D, 0x0435, 0x0020, 0x043D, 0x0430,
      0x0439, 0x0434, 0x0435, 0x043D, 0x043E, 0x0020, 0x0432, 0x0020, 0x0441, 0x043B, 0x043E,
      0x0432, 0x0430, 0x0440, 0x0435]"

text \<open>\<open>Array.prototype.join\<close> on an array of strings.\<close>

fun join :: "jsstring list \<Rightarrow> jsstring \<Rightarrow> jsstring" where
  "join [] sep = []"
| "join [x] sep = x"
| "join (x # y # ys) sep = x @ sep @ join (y # ys) sep"

record word_chip =
  chip_class :: "string list"
  chip_title :: jsstring
  chip_text :: jsstring

definition word_chip_of :: "WordTranslation \<Rightarrow> word_chip" where
  "word_chip_of w =
     \<lparr> chip_class = [''px-1.5 py-0.5 rounded text-sm transition'', getWordClass w],
       chip_title = (if is_unknown w then not_found_title
                     else join (word_translations w) [0x002C, 0x0020]),
       chip_text = word w \<rparr>"

text \<open>The \<open>v-if\<close> / \<open>v-else-if\<close> / \<open>v-else\<close> chain of the main area.\<close>

datatype result_panel =
    LoadingPanel
  | ErrorPanel jsstring
  | EmptyPanel
  | ResultPanel jsstring "word_chip list"

definition main_panel ::
  "TranslateResponse option \<Rightarrow> bool \<Rightarrow> jsstring option \<Rightarrow> result_panel" where
  "main_panel result isLoading error =
     (if isLoading then LoadingPanel
      else case (if truthy error then error else None) of
        Some e \<Rightarrow> ErrorPanel e
      | None \<Rightarrow>
          (case result of
             None \<Rightarrow> EmptyPanel
           | Some r \<Rightarrow> ResultPanel (translated_text r) (map word_chip_of (words r))))"

text \<open>
  The footer exists when there is a result; its left side holds the not-found counter
  when some word is unknown.
\<close>

datatype result_footer = NoFooter | Footer "nat option"

definition footer :: "TranslateResponse option \<Rightarrow> result_footer" where
  "footer result =
     (case result of
        None \<Rightarrow> NoFooter
      | Some r \<Rightarrow>
          Footer (if list_ex is_unknown (words r)
                  then Some (length (filter is_unknown (words r))) else None))"

record result_view =
  view_panel :: result_panel
  view_footer :: result_footer
  view_modal :: "word_card option"

definition TranslatorResult ::
  "TranslateResponse option \<Rightarrow> bool \<Rightarrow> jsstring option \<Rightarrow> WordTranslation option
     \<Rightarrow> result_view" where
  "TranslatorResult result isLoading error selectedWord =
     \<lparr> view_panel = main_panel result isLoading error,
       view_footer = footer result,
       view_modal = map_option WordCard selectedWord \<rparr>"

section \<open>TranslatorInput.vue\<close>

datatype input_event = UpdateModelValue jsstring | EmitTranslate | EmitClear

definition handleKeydown :: "bool \<Rightarrow> string \<Rightarrow> input_event list" where
  "handleKeydown ctrlKey key = (if ctrlKey \<and> key = ''Enter'' then [EmitTranslate] else [])"

record input_view =
  textarea_disabled :: bool
  char_count :: nat
  clear_shown :: bool
  translate_disabled :: bool

definition TranslatorInput :: "jsstring \<Rightarrow> bool \<Rightarrow> input_view" where
  "TranslatorInput modelValue isLoading =
     \<lparr> textarea_disabled = isLoading,
       char_count = length modelValue,
       clear_shown = (modelValue \<noteq> []),
       translate_disabled = (isLoading \<or> trim modelValue = []) \<rparr>"

section \<open>api/translator.ts\<close>

datatype json = JString jsstring | JBool bool

record http_request =
  http_method :: string
  http_url :: string
  http_body :: "(string \<times> json) list"

text \<open>The members of the string-literal union \<open>TranslationDirection\<close> as strings.\<close>

fun direction_literal :: "TranslationDirection \<Rightarrow> jsstring" where
  "direction_literal TabRus = [0x74, 0x61, 0x62, 0x2D, 0x72, 0x75, 0x73]"
| "direction_literal RusTab = [0x72, 0x75, 0x73, 0x2D, 0x74, 0x61, 0x62]"

definition baseURL :: string where
  "baseURL = ''/api''"

text \<open>
  An omitted argument is \<open>None\<close> and takes the parameter's default. The object literal
  has the properties \<open>text\<close>, \<open>direction\<close> and \<open>use_llm\<close>, in this order.
\<close>

definition translate_request ::
  "jsstring \<Rightarrow> TranslationDirection option \<Rightarrow> bool option \<Rightarrow> http_request" where
  "translate_request text_arg direction_arg useLlm_arg =
     (let d = (case direction_arg of None \<Rightarrow> TabRus | Some x \<Rightarrow> x);
          useLlm = (case useLlm_arg of None \<Rightarrow> True | Some b \<Rightarrow> b)
      in \<lparr> http_method = ''POST'',
           http_url = baseURL @ ''/translate'',
           http_body = [(''text'', JString text_arg),
                        (''direction'', JString (direction_literal d)),
                        (''use_llm'', JBool useLlm)] \<rparr>)"

text \<open>
  What the \<open>await\<close> gives back: the response's data, or a thrown error, of which the
  caller reads \<open>response?.data?.detail\<close> and \<open>message\<close> (absent is \<open>None\<close>).
\<close>

record api_error =
  error_detail :: "jsstring option"
  error_message :: "jsstring option"

datatype api_outcome = Resolved TranslateResponse | Rejected api_error

type_synonym backend = "http_request \<Rightarrow> api_outcome"

definition api_translate ::
  "backend \<Rightarrow> jsstring \<Rightarrow> TranslationDirection option \<Rightarrow> bool option
     \<Rightarrow> api_outcome \<times> http_request list" where
  "api_translate net text_arg direction_arg useLlm_arg =
     (let req = translate_request text_arg direction_arg useLlm_arg in (net req, [req]))"

section \<open>composables/useTranslator.ts\<close>

record translator_state =
  inputText :: jsstring
  direction :: TranslationDirection
  isLoading :: bool
  error :: "jsstring option"
  result :: "TranslateResponse option"
  useLlm :: bool

definition initial_state :: translator_state where
  "initial_state =
     \<lparr> inputText = [], direction = TabRus, isLoading = False, error = None,
       result = None, useLlm = True \<rparr>"

definition tabasaran_name :: jsstring where
  "tabasaran_name =
     [0x0422, 0x0430, 0x0431, 0x0430, 0x0441, 0x0430, 0x0440, 0x0430, 0x043D, 0x0441, 0x043A,
      0x0438, 0x0439]"

definition russian_name :: jsstring where
  "russian_name = [0x0420, 0x0443, 0x0441, 0x0441, 0x043A, 0x0438, 0x0439]"

definition sourceLang :: "translator_state \<Rightarrow> jsstring" where
  "sourceLang s = (if direction s = TabRus then tabasaran_name else russian_name)"

definition targetLang :: "translator_state \<Rightarrow> jsstring" where
  "targetLang s = (if direction s = TabRus then russian_name else tabasaran_name)"

definition hasResult :: "translator_state \<Rightarrow> bool" where
  "hasResult s = (result s \<noteq> None)"

definition unknownWords :: "translator_state \<Rightarrow> WordTranslation list" where
  "unknownWords s = (case result s of None \<Rightarrow> [] | Some r \<Rightarrow> filter is_unknown (words r))"

definition enter_text_message :: jsstring where
  "enter_text_message =
     [0x0412, 0x0432, 0x0435, 0x0434, 0x0438, 0x0442, 0x0435, 0x0020, 0x0442, 0x0435, 0x043A,
      0x0441, 0x0442, 0x0020, 0x0434, 0x043B, 0x044F, 0x0020, 0x043F, 0x0435, 0x0440, 0x0435,
      0x0432, 0x043E, 0x0434, 0x0430]"

definition translation_error_message :: jsstring where
  "translation_error_message =
     [0x041E, 0x0448, 0x0438, 0x0431, 0x043A, 0x0430, 0x0020, 0x043F, 0x0435, 0x0440, 0x0435,
      0x0432, 0x043E, 0x0434, 0x0430]"

text \<open>\<open>e.response?.data?.detail || e.message || '...'\<close>: the first truthy operand.\<close>

definition failure_message :: "api_error \<Rightarrow> jsstring" where
  "failure_message e =
     (case (if truthy (error_detail e) then error_detail e else None) of
        Some d \<Rightarrow> d
      | None \<Rightarrow>
          (case (if truthy (error_message e) then error_message e else None) of
             Some m \<Rightarrow> m
           | None \<Rightarrow> translation_error_message))"

definition toggleDirection :: "translator_state \<Rightarrow> translator_state" where
  "toggleDirection s =
     (let s1 = s\<lparr>direction := (if direction s = TabRus then RusTab else TabRus)\<rparr>
      in case result s1 of
           Some r \<Rightarrow> (s1\<lparr>inputText := translated_text r\<rparr>)\<lparr>result := None\<rparr>
         | None \<Rightarrow> s1)"

definition clear :: "translator_state \<Rightarrow> translator_state" where
  "clear s = ((s\<lparr>inputText := []\<rparr>)\<lparr>result := None\<rparr>)\<lparr>error := None\<rparr>"

text \<open>
  What the page can do to the state while a request is in flight: the two \<open>v-model\<close>
  bindings, the direction toggle and the clear button. A second \<open>translate\<close> is not
  among them: the translate button and the textarea (whose keydown handler is the only
  other caller) are disabled while \<open>isLoading\<close> holds.
\<close>

datatype ui_action = SetInputText jsstring | SetUseLlm bool | ToggleDirection | Clear

fun ui_step :: "translator_state \<Rightarrow> ui_action \<Rightarrow> translator_state" where
  "ui_step s (SetInputText v) = s\<lparr>inputText := v\<rparr>"
| "ui_step s (SetUseLlm b) = s\<lparr>useLlm := b\<rparr>"
| "ui_step s ToggleDirection = toggleDirection s"
| "ui_step s Clear = clear s"

text \<open>The state while the request is in flight: the two assignments before \<open>try\<close>.\<close>

definition translate_pending :: "translator_state \<Rightarrow> translator_state" where
  "translate_pending s = (s\<lparr>isLoading := True\<rparr>)\<lparr>error := None\<rparr>"

text \<open>
  One run of \<open>translate\<close> to its end. The call's arguments are read before the
  \<open>await\<close>; \<open>during\<close> lists what the page did to the state between the request and its
  answer (\<open>[]\<close> when nothing happened in between); then the \<open>try\<close>, \<open>catch\<close> and
  \<open>finally\<close> blocks continue. The second component lists the requests sent.
\<close>

definition translate ::
  "backend \<Rightarrow> ui_action list \<Rightarrow> translator_state \<Rightarrow> translator_state \<times> http_request list" where
  "translate net during s =
     (if trim (inputText s) = [] then (s\<lparr>error := Some enter_text_message\<rparr>, [])
      else
        let s1 = translate_pending s;
            (outcome, sent) =
               api_translate net (inputText s1) (Some (direction s1)) (Some (useLlm s1));
            s2 = foldl ui_step s1 during;
            s3 = (case outcome of
                    Resolved r \<Rightarrow> s2\<lparr>result := Some r\<rparr>
                  | Rejected e \<Rightarrow> (s2\<lparr>error := Some (failure_message e)\<rparr>)\<lparr>result := None\<rparr>)
        in (s3\<lparr>isLoading := False\<rparr>, sent))"

section \<open>App.vue\<close>

record app_view =
  app_input :: input_view
  app_result :: result_view
  app_use_llm_checked :: bool
  app_llm_badge :: bool

text \<open>\<open>result?.llm_used\<close> is undefined, hence falsy, without a result.\<close>

definition llm_badge :: "translator_state \<Rightarrow> bool" where
  "llm_badge s = (case result s of None \<Rightarrow> False | Some r \<Rightarrow> llm_used r)"

definition App :: "translator_state \<Rightarrow> WordTranslation option \<Rightarrow> app_view" where
  "App s selectedWord =
     \<lparr> app_input = TranslatorInput (inputText s) (isLoading s),
       app_result = TranslatorResult (result s) (isLoading s) (error s) selectedWord,
       app_use_llm_checked = useLlm s,
       app_llm_badge = llm_badge s \<rparr>"

section \<open>Sample values\<close>

definition unknown_word :: WordTranslation where
  "unknown_word =
     \<lparr> word = [0x78, 0x79], word_translations = [], part_of_speech = None,
       confidence = 0, is_unknown = True \<rparr>"

definition known_word :: WordTranslation where
  "known_word =
     \<lparr> word = [0x61], word_translations = [[0x62]], part_of_speech = None,
       confidence = 1, is_unknown = False \<rparr>"

definition fuzzy_word :: WordTranslation where
  "fuzzy_word =
     \<lparr> word = [0x63], word_translations = [[0x64]], part_of_speech = None,
       confidence = 0.3, is_unknown = False \<rparr>"

definition stemmed_word :: WordTranslation where
  "stemmed_word =
     \<lparr> word = [0x65], word_translations = [[0x66]], part_of_speech = None,
       confidence = 0.6, is_unknown = False \<rparr>"

text \<open>A known word whose confidence is the double just below 0.8.\<close>

definition near_high_word :: WordTranslation where
  "near_high_word =
     \<lparr> word = [0x67], word_translations = [[0x68]], part_of_speech = None,
       confidence = 7205759403792793 / 9007199254740992, is_unknown = False \<rparr>"

definition sample_response :: TranslateResponse where
  "sample_response =
     \<lparr> original_text = [0x78, 0x79, 0x20, 0x61], translated_text = [0x78, 0x79, 0x20, 0x62],
       words = [unknown_word, known_word], direction_of = TabRus, llm_used = False \<rparr>"

definition sample_state :: translator_state where
  "sample_state =
     \<lparr> inputText = [0x78, 0x79, 0x20, 0x61], direction = TabRus, isLoading = False,
       error = None, result = Some sample_response, useLlm = True \<rparr>"

definition blank_state :: translator_state where
  "blank_state = sample_state\<lparr>inputText := [0x0020, 0x0009, 0x000A]\<rparr>"

definition net_ok :: backend where
  "net_ok req = Resolved sample_response"

definition net_down :: backend where
  "net_down req = Rejected \<lparr> error_detail = None, error_message = Some [0x34, 0x30, 0x34] \<rparr>"

section \<open>Auxiliary facts\<close>

text \<open>Rounding to a double: the scaling, the normal range, and the error.\<close>

lemma round_half_even_near: "\<bar>of_int (round_half_even b) - b\<bar> \<le> 1 / 2"
  unfolding round_half_even_def Let_def by (auto; linarith)

lemma normalise_up_spec:
  "normalise_up n a e = (b, e') \<Longrightarrow>
   \<exists>k \<le> n. b = a * 2 ^ k \<and> e' = e - int k \<and> (2 ^ 52 \<le> b \<or> k = n)"
proof (induction n arbitrary: a e)
  case 0
  then show ?case by simp
next
  case (Suc n)
  show ?case
  proof (cases "2 ^ 52 \<le> a")
    case True
    with Suc.prems have "b = a" "e' = e" by simp_all
    with True show ?thesis by (intro exI [of _ 0]) simp
  next
    case False
    with Suc.prems have "normalise_up n (2 * a) (e - 1) = (b, e')" by simp
    from Suc.IH [OF this] obtain k where
      k: "k \<le> n" "b = 2 * a * 2 ^ k" "e' = e - 1 - int k" "2 ^ 52 \<le> b \<or> k = n"
      by blast
    then show ?thesis by (intro exI [of _ "Suc k"]) auto
  qed
qed

lemma normalise_up_exact:
  "k \<le> n \<Longrightarrow> 0 \<le> a \<Longrightarrow> 2 ^ 52 \<le> a * 2 ^ k \<Longrightarrow> a * 2 ^ k < 2 ^ 53 \<Longrightarrow>
   normalise_up n a e = (a * 2 ^ k, e - int k)"
proof (induction n arbitrary: a e k)
  case 0
  then show ?case by simp
next
  case (Suc n)
  show ?case
  proof (cases "2 ^ 52 \<le> a")
    case True
    have "k = 0"
    proof (rule ccontr)
      assume "k \<noteq> 0"
      then have "(2::real) \<le> 2 ^ k" using self_le_power [of "2::real" k] by simp
      then have "2 ^ 52 * 2 \<le> a * 2 ^ k" using True Suc.prems(2)
        by (intro mult_mono) simp_all
      with Suc.prems(4) show False by simp
    qed
    with True show ?thesis by simp
  next
    case False
    then have "k \<noteq> 0" using Suc.prems(3) by (cases k) simp_all
    then obtain j where j: "k = Suc j" by (cases k) simp_all
    have "normalise_up n (2 * a) (e - 1) = (2 * a * 2 ^ j, e - 1 - int j)"
      using Suc.prems j by (intro Suc.IH) (simp_all add: mult.assoc)
    with False j show ?thesis by (simp add: mult.assoc)
  qed
qed



lemma scaled_down_le:
  fixes m :: real
  assumes "m < c" and "0 < c"
  shows "m / 2 ^ k < c"
proof (cases "0 \<le> m")
  case True
  have "m / 2 ^ k \<le> m / 1"
    using True by (intro divide_left_mono) simp_all
  with assms show ?thesis by simp
next
  case False
  then have "m / 2 ^ k < 0" by (simp add: divide_less_0_iff)
  with assms show ?thesis by linarith
qed

lemma round_to_double_normal:
  assumes "k \<le> 1074" and "2 ^ 52 \<le> \<bar>x\<bar> * 2 ^ k" and "\<bar>x\<bar> * 2 ^ k < 2 ^ 53"
  shows "round_to_double x = Finite (sgn x * of_int (round_half_even (\<bar>x\<bar> * 2 ^ k)) / 2 ^ k)"
proof -
  have "1 \<le> (2::real) ^ k" by simp
  then have "\<bar>x\<bar> * 1 \<le> \<bar>x\<bar> * 2 ^ k" by (intro mult_left_mono) simp_all
  with assms(3) have small: "\<bar>x\<bar> < 2 ^ 53" by simp
  have up: "normalise_up 1074 \<bar>x\<bar> 0 = (\<bar>x\<bar> * 2 ^ k, 0 - int k)"
    using assms by (intro normalise_up_exact) simp_all
  define m where "m = round_half_even (\<bar>x\<bar> * 2 ^ k)"
  have "of_int m \<le> \<bar>x\<bar> * 2 ^ k + 1 / 2"
    using round_half_even_near [of "\<bar>x\<bar> * 2 ^ k"] unfolding m_def by linarith
  with assms(3) have m_le: "real_of_int m < 2 ^ 54" by simp
  have pk: "(2::real) powi (- int k) = 1 / 2 ^ k"
    by (simp add: power_int_minus divide_inverse)
  have "real_of_int m / 2 ^ k < 2 ^ 54"
    using m_le by (rule scaled_down_le) simp
  also have "(2::real) ^ 54 \<le> 2 ^ 1024"
    by (rule power_increasing) simp_all
  finally have fin: "\<not> 2 ^ 1024 \<le> real_of_int m * 2 powi (- int k)"
    by (simp only: pk times_divide_eq_right mult_1_right not_le)
  have "round_to_double x =
        (let v = of_int m * 2 powi (- int k)
         in if 2 ^ 1024 \<le> v then (if x < 0 then NegInfinity else PosInfinity)
            else Finite (sgn x * v))"
    unfolding round_to_double_def Let_def m_def
    by (simp only: small up if_True prod.case diff_0)
  also have "\<dots> = Finite (sgn x * (of_int m * 2 powi (- int k)))"
    unfolding Let_def using fin by (simp only: if_False)
  also have "\<dots> = Finite (sgn x * of_int m / 2 ^ k)"
    by (simp only: pk times_divide_eq_right mult_1_right)
  finally show ?thesis unfolding m_def .
qed


lemma double_product_below_80: "js_times (7205759403792793 / 9007199254740992) 100 = Finite 80"
proof -
  have "round_to_double (7205759403792793 / 9007199254740992 * 100)
        = Finite (sgn (7205759403792793 / 9007199254740992 * 100)
            * of_int (round_half_even (\<bar>7205759403792793 / 9007199254740992 * 100\<bar> * 2 ^ 46))
            / 2 ^ 46)"
    by (rule round_to_double_normal) simp_all
  also have "\<dots> = Finite 80"
    by (simp add: round_half_even_def Let_def)
  finally show ?thesis by (simp only: js_times_def)
qed

lemma round_to_double_near:
  assumes "0 \<le> x" and "x < 128"
  shows "\<exists>p. round_to_double x = Finite p \<and> \<bar>p - x\<bar> \<le> 1 / 2 ^ 47"
proof -
  obtain b e where be: "normalise_up 1074 x 0 = (b, e)"
    by (cases "normalise_up 1074 x 0")
  from normalise_up_spec [OF be] obtain k where
    k: "k \<le> 1074" "b = x * 2 ^ k" "e = - int k" "2 ^ 52 \<le> b \<or> k = 1074"
    by auto
  define m where "m = round_half_even b"
  have near: "\<bar>of_int m - b\<bar> \<le> 1 / 2"
    unfolding m_def by (rule round_half_even_near)
  have pk: "(2::real) powi (- int k) = 1 / 2 ^ k"
    by (simp add: power_int_minus divide_inverse)
  have k46: "46 \<le> k"
  proof (rule ccontr)
    assume "\<not> 46 \<le> k"
    then have k45: "k \<le> 45" by simp
    then have "k \<noteq> 1074" by simp
    with k(4) have big: "2 ^ 52 \<le> x * 2 ^ k" by (simp add: k(2))
    have "(2::real) ^ k \<le> 2 ^ 45" using k45 by (intro power_increasing) simp_all
    then have "x * 2 ^ k \<le> x * 2 ^ 45"
      using assms(1) by (rule mult_left_mono)
    also have "x * 2 ^ 45 < 128 * 2 ^ 45"
      using assms(2) by simp
    finally show False using big by simp
  qed
  have q: "(1::real) / 2 ^ k \<le> 1 / 2 ^ 46"
    using k46 by (intro divide_left_mono power_increasing) simp_all
  have "of_int m / 2 ^ k - x = (of_int m - b) / 2 ^ k"
    by (simp add: k(2) field_simps)
  then have "\<bar>of_int m / 2 ^ k - x\<bar> = \<bar>of_int m - b\<bar> * (1 / 2 ^ k)"
    by simp
  also have "\<dots> \<le> (1 / 2) * (1 / 2 ^ 46)"
    using near q by (intro mult_mono) simp_all
  finally have err: "\<bar>of_int m / 2 ^ k - x\<bar> \<le> 1 / 2 ^ 47" by simp
  have "(1::real) / 2 ^ 47 \<le> 1" by simp
  with err have "real_of_int m / 2 ^ k - x \<le> 1" by linarith
  with assms(2) have "real_of_int m / 2 ^ k < 2 ^ 8" by simp
  also have "(2::real) ^ 8 \<le> 2 ^ 1024" by (rule power_increasing) simp_all
  finally have fin: "\<not> 2 ^ 1024 \<le> real_of_int m * 2 powi (- int k)"
    by (simp only: pk times_divide_eq_right mult_1_right not_le)
  have small: "x < 2 ^ 53" using assms by simp
  have absx: "\<bar>x\<bar> = x" using assms by simp
  have "round_to_double x = Finite (sgn x * (of_int m * 2 powi (- int k)))"
    unfolding round_to_double_def Let_def m_def
    using fin [unfolded m_def]
    by (simp only: small absx be k(3) if_True if_False prod.case)
  moreover have "sgn x * (of_int m * 2 powi (- int k)) = of_int m / 2 ^ k"
  proof (cases "x = 0")
    case True
    then have "b = 0" by (simp add: k(2))
    then have "m = 0" by (simp add: m_def round_half_even_def)
    with True show ?thesis by simp
  next
    case False
    with assms have "sgn x = 1" by simp
    then show ?thesis by (simp add: pk)
  qed
  ultimately show ?thesis using err by simp
qed

lemma double_product_of_055:
  "js_times (2476979795053773 / 4503599627370496) 100
   = Finite (7740561859543041 / 140737488355328)"
proof -
  have "round_to_double (2476979795053773 / 4503599627370496 * 100)
        = Finite (sgn (2476979795053773 / 4503599627370496 * 100)
            * of_int (round_half_even (\<bar>2476979795053773 / 4503599627370496 * 100\<bar> * 2 ^ 47))
            / 2 ^ 47)"
    by (rule round_to_double_normal) simp_all
  also have "\<dots> = Finite (7740561859543041 / 140737488355328)"
    by (simp add: round_half_even_def Let_def)
  finally show ?thesis by (simp only: js_times_def)
qed

lemma failure_message_nonempty: "failure_message e \<noteq> []"
  by (simp add: failure_message_def truthy_def translation_error_message_def
      split: option.splits)

lemma ui_step_error: "error s = None \<Longrightarrow> error (ui_step s a) = None"
  by (cases a) (simp_all add: toggleDirection_def clear_def Let_def split: option.splits)

lemma foldl_ui_step_error: "error s = None \<Longrightarrow> error (foldl ui_step s acts) = None"
  by (induction acts arbitrary: s) (simp_all add: ui_step_error)

lemma pending_error: "error (foldl ui_step (translate_pending s) acts) = None"
  by (rule foldl_ui_step_error) (simp add: translate_pending_def)

text \<open>A run on non-blank input, written out: one request, then the settled state.\<close>

lemma translate_nonblank:
  assumes "trim (inputText s) \<noteq> []"
  shows "translate net during s =
     ((case net (translate_request (inputText s) (Some (direction s)) (Some (useLlm s))) of
         Resolved r \<Rightarrow>
           (foldl ui_step (translate_pending s) during)\<lparr>result := Some r, isLoading := False\<rparr>
       | Rejected e \<Rightarrow>
           (foldl ui_step (translate_pending s) during)
             \<lparr>error := Some (failure_message e), result := None, isLoading := False\<rparr>),
      [translate_request (inputText s) (Some (direction s)) (Some (useLlm s))])"
  using assms
  by (simp add: translate_def api_translate_def Let_def translate_pending_def
      split: api_outcome.splits)

section \<open>The confidence bands in the interface\<close>

text \<open>
  C1. In the word-detail card the inner bar carries the class \<open>bg-green-500\<close> exactly
  when the confidence is at least 0.8, \<open>bg-yellow-500\<close> exactly when it is at least 0.5
  and below 0.8, and \<open>bg-red-500\<close> exactly when it is below 0.5. Its width in percent is
  the product of the confidence and 100 as the double multiplication gives it: for a
  confidence between 0 and 1 a finite number within \<open>2^-47\<close> of the exact product.
\<close>

theorem confidence_bar_bands:
  "bar_class (card_bar (WordCard w))
     = [''h-full rounded-full transition-all'', confidence_color w]
   \<and> (confidence_color w = ''bg-green-500'' \<longleftrightarrow> confidence w \<ge> 0.8)
   \<and> (confidence_color w = ''bg-yellow-500'' \<longleftrightarrow> 0.5 \<le> confidence w \<and> confidence w < 0.8)
   \<and> (confidence_color w = ''bg-red-500'' \<longleftrightarrow> confidence w < 0.5)
   \<and> bar_width_percent (card_bar (WordCard w)) = js_times (confidence w) 100
   \<and> (0 \<le> confidence w \<and> confidence w \<le> 1
      \<longrightarrow> (\<exists>p. bar_width_percent (card_bar (WordCard w)) = Finite p
               \<and> \<bar>p - confidence w * 100\<bar> \<le> 1 / 2 ^ 47))"
proof -
  have colours:
    "(confidence_color w = ''bg-green-500'' \<longleftrightarrow> confidence w \<ge> 0.8)
     \<and> (confidence_color w = ''bg-yellow-500'' \<longleftrightarrow> 0.5 \<le> confidence w \<and> confidence w < 0.8)
     \<and> (confidence_color w = ''bg-red-500'' \<longleftrightarrow> confidence w < 0.5)"
    by (auto simp: confidence_color_def)
  have bar: "card_bar (WordCard w) = confidence_bar_of w"
    by (simp add: WordCard_def)
  have near: "\<exists>p. js_times (confidence w) 100 = Finite p \<and> \<bar>p - confidence w * 100\<bar> \<le> 1 / 2 ^ 47"
    if "0 \<le> confidence w" and "confidence w \<le> 1"
    unfolding js_times_def using that by (intro round_to_double_near) simp_all
  show ?thesis
    using colours near by (simp add: bar confidence_bar_of_def)
qed

theorem confidence_bar_bands_witness:
  "0 \<le> confidence near_high_word \<and> confidence near_high_word \<le> 1
   \<and> confidence_color near_high_word = ''bg-yellow-500''
   \<and> bar_width_percent (card_bar (WordCard near_high_word)) = Finite 80
   \<and> \<bar>80 - confidence near_high_word * 100\<bar> \<le> 1 / 2 ^ 47"
proof -
  have c: "confidence near_high_word = 7205759403792793 / 9007199254740992"
    by (simp add: near_high_word_def)
  have range: "0 \<le> confidence near_high_word \<and> confidence near_high_word \<le> 1"
    by (simp add: c)
  have band: "0.5 \<le> confidence near_high_word \<and> confidence near_high_word < 0.8"
    by (simp add: c)
  have product: "js_times (confidence near_high_word) 100 = Finite 80"
    by (simp only: c double_product_below_80)
  from confidence_bar_bands [of near_high_word] range
  obtain p where p: "bar_width_percent (card_bar (WordCard near_high_word)) = Finite p"
      "\<bar>p - confidence near_high_word * 100\<bar> \<le> 1 / 2 ^ 47"
    and width: "bar_width_percent (card_bar (WordCard near_high_word))
                = js_times (confidence near_high_word) 100"
    and yellow: "confidence_color near_high_word = ''bg-yellow-500''"
    using band by blast
  from p(1) width product have "p = 80" by simp
  with p range yellow show ?thesis by simp
qed

text \<open>
  C2. Distinct styling of the high, medium and low bands of known words in the
  word-by-word breakdown. \<open>getWordClass\<close> tests only the threshold 0.8 for a known word:
  one of confidence 0.3 gets the same class string as one of confidence 0.6 (the yellow
  one), while the word-detail card colours the first red and the second yellow.
\<close>

theorem getWordClass_low_band_merged:
  "getWordClass fuzzy_word = getWordClass stemmed_word
   \<and> getWordClass fuzzy_word
       = ''text-yellow-700 bg-yellow-50 cursor-pointer hover:bg-yellow-100''
   \<and> confidence_color fuzzy_word = ''bg-red-500''
   \<and> confidence_color stemmed_word = ''bg-yellow-500''"
  by (simp add: getWordClass_def confidence_color_def fuzzy_word_def stemmed_word_def)

section \<open>The translator state\<close>

text \<open>
  C3. Toggling the direction twice gives the direction back, from either of its two
  values and whatever the rest of the state holds.
\<close>

theorem toggleDirection_twice:
  "direction (toggleDirection (toggleDirection s)) = direction s"
  by (cases "direction s") (simp_all add: toggleDirection_def Let_def split: option.splits)

text \<open>
  C4. When the input text is empty after trimming, \<open>translate\<close> only stores the message
  asking for text: no request is sent, and \<open>isLoading\<close> and the result stay as they
  were. The translate button is disabled for such input.
\<close>

theorem translate_blank_rejected:
  assumes "trim (inputText s) = []"
  shows "translate net during s = (s\<lparr>error := Some enter_text_message\<rparr>, [])
         \<and> truthy (error (fst (translate net during s)))
         \<and> snd (translate net during s) = []
         \<and> isLoading (fst (translate net during s)) = isLoading s
         \<and> result (fst (translate net during s)) = result s
         \<and> translate_disabled (TranslatorInput (inputText s) loading)"
  using assms
  by (simp add: translate_def truthy_def enter_text_message_def TranslatorInput_def)

theorem translate_blank_rejected_witness:
  "trim (inputText blank_state) = []
   \<and> translate net_ok [] blank_state = (blank_state\<lparr>error := Some enter_text_message\<rparr>, [])
   \<and> result (fst (translate net_ok [] blank_state)) = Some sample_response
   \<and> translate_disabled (TranslatorInput (inputText blank_state) False)"
proof -
  have h: "trim (inputText blank_state) = []"
    by (simp add: blank_state_def trim_def is_js_space_def)
  have r: "result blank_state = Some sample_response"
    by (simp add: blank_state_def sample_state_def)
  show ?thesis
    using h r translate_blank_rejected [OF h, of net_ok "[]" False] by simp
qed

text \<open>
  C5. A call of the client's \<open>translate\<close> sends one POST to \<open>/api/translate\<close> whose body
  has exactly the properties \<open>text\<close>, \<open>direction\<close> and \<open>use_llm\<close>: the text as given, one
  of the two direction literals (\<open>tab-rus\<close> when omitted) and a boolean (true when
  omitted).
\<close>

theorem translate_request_body:
  "snd (api_translate net t d u) = [translate_request t d u]
   \<and> http_method (translate_request t d u) = ''POST''
   \<and> http_url (translate_request t d u) = ''/api/translate''
   \<and> map fst (http_body (translate_request t d u)) = [''text'', ''direction'', ''use_llm'']
   \<and> map_of (http_body (translate_request t d u)) ''text'' = Some (JString t)
   \<and> map_of (http_body (translate_request t d u)) ''direction''
        = Some (JString (direction_literal (case d of None \<Rightarrow> TabRus | Some x \<Rightarrow> x)))
   \<and> map_of (http_body (translate_request t d u)) ''direction''
        \<in> {Some (JString [0x74, 0x61, 0x62, 0x2D, 0x72, 0x75, 0x73]),
            Some (JString [0x72, 0x75, 0x73, 0x2D, 0x74, 0x61, 0x62])}
   \<and> map_of (http_body (translate_request t d u)) ''use_llm''
        = Some (JBool (case u of None \<Rightarrow> True | Some b \<Rightarrow> b))"
proof -
  have "direction_literal x \<in> {[0x74, 0x61, 0x62, 0x2D, 0x72, 0x75, 0x73],
            [0x72, 0x75, 0x73, 0x2D, 0x74, 0x61, 0x62]}" for x
    by (cases x) simp_all
  then show ?thesis
    by (simp add: api_translate_def translate_request_def Let_def baseURL_def)
qed

section \<open>What the result pane shows\<close>

text \<open>
  C6. With a result present, the footer shows the not-found counter exactly when some
  word of the result is unknown, and the number shown is the number of unknown words
  (the length of \<open>unknownWords\<close>). Unknown words do not bring up the error pane: that
  pane appears exactly when nothing is loading and the error prop holds a message, and
  without one the result is shown.
\<close>

theorem footer_unknown_counter:
  "((\<exists>n. view_footer (TranslatorResult (Some r) loading e sel) = Footer (Some n))
      \<longleftrightarrow> (\<exists>w \<in> set (words r). is_unknown w))
   \<and> (view_footer (TranslatorResult (Some r) loading e sel) = Footer (Some n)
      \<longrightarrow> n = length (filter is_unknown (words r))
          \<and> (result s = Some r \<longrightarrow> n = length (unknownWords s)))
   \<and> ((\<exists>m. view_panel (TranslatorResult (Some r) loading e sel) = ErrorPanel m)
      \<longleftrightarrow> (\<not> loading \<and> truthy e))
   \<and> view_panel (TranslatorResult (Some r) False None sel)
      = ResultPanel (translated_text r) (map word_chip_of (words r))"
  by (auto simp: TranslatorResult_def footer_def unknownWords_def list_ex_iff main_panel_def
      truthy_def split: option.splits)

theorem footer_unknown_counter_witness:
  "view_footer (TranslatorResult (Some sample_response) False None None) = Footer (Some 1)
   \<and> (\<exists>w \<in> set (words sample_response). is_unknown w)
   \<and> (1::nat) = length (filter is_unknown (words sample_response))
   \<and> result sample_state = Some sample_response
   \<and> (1::nat) = length (unknownWords sample_state)"
proof -
  have f: "view_footer (TranslatorResult (Some sample_response) False None None)
           = Footer (Some 1)"
    by (simp add: TranslatorResult_def footer_def sample_response_def unknown_word_def
        known_word_def)
  have res: "result sample_state = Some sample_response"
    by (simp add: sample_state_def)
  show ?thesis
    using f res footer_unknown_counter [of sample_response False None None 1 sample_state]
    by blast
qed

text \<open>
  C7. The badge saying that the language model was used is rendered exactly when there
  is a result whose \<open>llm_used\<close> is true. When a run on non-blank input is answered with
  a response whose \<open>llm_used\<close> is false, the state afterwards has no error, the result
  pane shows that response as a translation, and the badge is absent.
\<close>

theorem llm_badge_no_error:
  "(app_llm_badge (App s sel) \<longleftrightarrow> (\<exists>r. result s = Some r \<and> llm_used r))
   \<and> (trim (inputText s) \<noteq> []
        \<and> net (translate_request (inputText s) (Some (direction s)) (Some (useLlm s)))
            = Resolved r
        \<and> \<not> llm_used r
      \<longrightarrow> error (fst (translate net during s)) = None
          \<and> result (fst (translate net during s)) = Some r
          \<and> view_panel (app_result (App (fst (translate net during s)) sel))
              = ResultPanel (translated_text r) (map word_chip_of (words r))
          \<and> \<not> app_llm_badge (App (fst (translate net during s)) sel))"
proof -
  have badge: "app_llm_badge (App s sel) \<longleftrightarrow> (\<exists>r. result s = Some r \<and> llm_used r)"
    by (simp add: App_def llm_badge_def split: option.splits)
  have run: "error (fst (translate net during s)) = None
          \<and> result (fst (translate net during s)) = Some r
          \<and> view_panel (app_result (App (fst (translate net during s)) sel))
              = ResultPanel (translated_text r) (map word_chip_of (words r))
          \<and> \<not> app_llm_badge (App (fst (translate net during s)) sel)"
    if "trim (inputText s) \<noteq> []"
      and "net (translate_request (inputText s) (Some (direction s)) (Some (useLlm s)))
            = Resolved r"
      and "\<not> llm_used r"
    using that pending_error [of s during]
    by (simp add: translate_nonblank App_def llm_badge_def TranslatorResult_def
        main_panel_def truthy_def)
  from badge run show ?thesis by blast
qed

theorem llm_badge_no_error_witness:
  "trim (inputText sample_state) \<noteq> []
   \<and> net_ok (translate_request (inputText sample_state) (Some (direction sample_state))
        (Some (useLlm sample_state))) = Resolved sample_response
   \<and> \<not> llm_used sample_response
   \<and> error (fst (translate net_ok [] sample_state)) = None
   \<and> result (fst (translate net_ok [] sample_state)) = Some sample_response
   \<and> view_panel (app_result (App (fst (translate net_ok [] sample_state)) None))
        = ResultPanel (translated_text sample_response)
            (map word_chip_of (words sample_response))
   \<and> \<not> app_llm_badge (App (fst (translate net_ok [] sample_state)) None)"
proof -
  have h1: "trim (inputText sample_state) \<noteq> []"
    by (simp add: sample_state_def trim_def is_js_space_def)
  have h2: "net_ok (translate_request (inputText sample_state) (Some (direction sample_state))
        (Some (useLlm sample_state))) = Resolved sample_response"
    by (simp add: net_ok_def)
  have h3: "\<not> llm_used sample_response"
    by (simp add: sample_response_def)
  show ?thesis
    using h1 h2 h3 llm_badge_no_error [of sample_state None net_ok sample_response "[]"]
    by blast
qed

section \<open>Invariants of the state\<close>

text \<open>
  C8. A run of \<open>translate\<close> on non-blank input sends one request and ends with
  \<open>isLoading\<close> false and with the result or the error null: when the request is
  answered, the result is the response and the error is null; when it fails, the error
  is a non-empty message and the result is null, whatever it was before. This holds
  also when the page edits the text, toggles the direction or clears the state while
  the request is in flight.
\<close>

theorem translate_completed:
  assumes "trim (inputText s) \<noteq> []"
  shows "\<not> isLoading (fst (translate net during s))
         \<and> (result (fst (translate net during s)) = None
            \<or> error (fst (translate net during s)) = None)
         \<and> snd (translate net during s)
             = [translate_request (inputText s) (Some (direction s)) (Some (useLlm s))]
         \<and> (case net (translate_request (inputText s) (Some (direction s)) (Some (useLlm s))) of
               Resolved r \<Rightarrow>
                 result (fst (translate net during s)) = Some r
                 \<and> error (fst (translate net during s)) = None
             | Rejected e \<Rightarrow>
                 error (fst (translate net during s)) = Some (failure_message e)
                 \<and> truthy (error (fst (translate net during s)))
                 \<and> result (fst (translate net during s)) = None)"
  using failure_message_nonempty pending_error [of s during]
  by (simp add: translate_nonblank [OF assms] truthy_def split: api_outcome.splits)

theorem translate_completed_witness:
  "trim (inputText sample_state) \<noteq> []
   \<and> result sample_state = Some sample_response
   \<and> \<not> isLoading (fst (translate net_down [] sample_state))
   \<and> error (fst (translate net_down [] sample_state)) = Some [0x34, 0x30, 0x34]
   \<and> result (fst (translate net_down [] sample_state)) = None"
proof -
  have h: "trim (inputText sample_state) \<noteq> []"
    by (simp add: sample_state_def trim_def is_js_space_def)
  have m: "failure_message \<lparr> error_detail = None, error_message = Some [0x34, 0x30, 0x34] \<rparr>
           = [0x34, 0x30, 0x34]"
    by (simp add: failure_message_def truthy_def)
  show ?thesis
    using h m translate_completed [OF h, of net_down "[]"]
    by (simp add: net_down_def sample_state_def)
qed

text \<open>
  C9. \<open>selectWord\<close> leaves the selection as it is for an unknown word and sets it to
  the word for a known one; \<open>closeWordCard\<close> resets it to null. The selection starts
  null, and each of the two operations keeps it null or a known word.
\<close>

theorem selectWord_keeps_known:
  "(is_unknown w \<longrightarrow> selectWord w sel = sel)
   \<and> (\<not> is_unknown w \<longrightarrow> selectWord w sel = Some w)
   \<and> closeWordCard sel = None
   \<and> selected_known None
   \<and> (selected_known sel
      \<longrightarrow> selected_known (selectWord w sel) \<and> selected_known (closeWordCard sel))"
  by (simp add: selectWord_def closeWordCard_def selected_known_def)

theorem selectWord_keeps_known_witness:
  "is_unknown unknown_word \<and> \<not> is_unknown known_word \<and> selected_known (Some known_word)
   \<and> selectWord unknown_word (Some known_word) = Some known_word
   \<and> selectWord known_word None = Some known_word
   \<and> selected_known (selectWord unknown_word (Some known_word))"
proof -
  have u: "is_unknown unknown_word" by (simp add: unknown_word_def)
  have k: "\<not> is_unknown known_word" by (simp add: known_word_def)
  have i: "selected_known (Some known_word)" by (simp add: selected_known_def known_word_def)
  show ?thesis
    using u k i selectWord_keeps_known [of unknown_word "Some known_word"]
      selectWord_keeps_known [of known_word None]
    by blast
qed

text \<open>
  C10. \<open>clear\<close> sets the input text to the empty string and the result and the error
  to null, and changes nothing else: the direction, the language-model switch and
  \<open>isLoading\<close> are as before.
\<close>

theorem clear_frame:
  "inputText (clear s) = [] \<and> result (clear s) = None \<and> error (clear s) = None
   \<and> direction (clear s) = direction s \<and> useLlm (clear s) = useLlm s
   \<and> isLoading (clear s) = isLoading s
   \<and> clear s = s\<lparr>inputText := [], result := None, error := None\<rparr>"
  by (simp add: clear_def)

end
